theory Spec2Isabelle
  imports Main "HOL-Library.Sublist"
begin

section \<open>Strings\<close>

text \<open>
  A Python \<^verbatim>\<open>str\<close> is a sequence of Unicode code points. It is modelled as a list of
  natural numbers, one per code point, so that \<^verbatim>\<open>ord(c) < 0x80\<close> and the stripping
  of Unicode white space mean what they mean in Python. \<open>lit\<close> turns a literal of the source
  into such a list. The characters an Isabelle literal cannot hold are named below.
\<close>

type_synonym ustr = "nat list"

definition lit :: "string \<Rightarrow> ustr" where
  "lit s = map of_char s"

definition bslash :: ustr where
  "bslash = [92]"

definition nl :: ustr where
  "nl = [10]"

definition squote :: ustr where
  "squote = [39]"

definition dquote :: ustr where
  "dquote = [34]"

text \<open>
  \<^verbatim>\<open>sep.join(xs)\<close>.
\<close>

fun join :: "ustr \<Rightarrow> ustr list \<Rightarrow> ustr" where
  "join sep [] = []"
| "join sep [x] = x"
| "join sep (x # y # ys) = x @ sep @ join sep (y # ys)"

text \<open>
  \<^verbatim>\<open>s.replace(old, new)\<close>: the occurrences of \<open>old\<close> are found from the left and do
  not overlap. With an empty \<open>old\<close> Python puts \<open>new\<close> before every character and at
  the end.
\<close>

function replace_str :: "ustr \<Rightarrow> ustr \<Rightarrow> ustr \<Rightarrow> ustr" where
  "replace_str [] old new = (if old = [] then new else [])"
| "replace_str (c # cs) old new =
     (if old = [] then new @ c # replace_str cs old new
      else if prefix old (c # cs)
        then new @ replace_str (drop (length old) (c # cs)) old new
      else c # replace_str cs old new)"
  by pat_completeness auto
termination
  by (relation "measure (\<lambda>(s, old, new). length s)") auto

section \<open>The two colon escapes\<close>

text \<open>
  \<^verbatim>\<open>def fsemic(s): return s.replace(':', r'\:').replace(r'\\:', r'\:')\<close>
  \<^verbatim>\<open>def dsemic(s): return s.replace(':', r'\\:')\<close>
  The literals are raw: \<^verbatim>\<open>r'\:'\<close> is a backslash and a colon, \<^verbatim>\<open>r'\\:'\<close> is two
  backslashes and a colon.
\<close>

definition fsemic :: "ustr \<Rightarrow> ustr" where
  "fsemic s =
     replace_str (replace_str s (lit '':'') (bslash @ lit '':''))
       (bslash @ bslash @ lit '':'') (bslash @ lit '':'')"

definition dsemic :: "ustr \<Rightarrow> ustr" where
  "dsemic s = replace_str s (lit '':'') (bslash @ bslash @ lit '':'')"

section \<open>Values, failures and the interpreter\<close>

text \<open>
  A value of the introspection document, as \<^verbatim>\<open>json.load\<close> builds it: \<^verbatim>\<open>None\<close>,
  a \<^verbatim>\<open>bool\<close>, an \<^verbatim>\<open>int\<close>, a \<^verbatim>\<open>str\<close>, a \<^verbatim>\<open>list\<close> or a \<^verbatim>\<open>dict\<close>.
  Numbers with a fraction or an exponent (Python floats) are left out of the model.
\<close>

datatype pyval =
    VNone
  | VBool bool
  | VInt int
  | VStr ustr
  | VList "pyval list"
  | VDict "(ustr \<times> pyval) list"

text \<open>
  The exceptions the program can raise. \<open>ValueError\<close> carries its message and
  \<open>KeyError\<close> the missing key; the message of a \<open>TypeError\<close> is the interpreter's and
  is not modelled. \<open>OSError\<close> (from \<^verbatim>\<open>open\<close>) and \<open>JSONDecodeError\<close> (from
  \<^verbatim>\<open>json.load\<close>) come from the environment with their text.
  \<open>UnicodeEncodeError\<close> is raised by \<^verbatim>\<open>print\<close> and carries the string that could not
  be written.
\<close>

datatype exc =
    KeyError ustr
  | ValueError ustr
  | TypeError
  | OSError ustr
  | JSONDecodeError ustr
  | UnicodeEncodeError ustr

text \<open>
  What the program takes from the Python library and what depends on Unicode tables:
  \<^verbatim>\<open>repr(v)\<close>, \<^verbatim>\<open>int(s)\<close> on a string of the document (the integer or the
  exception it raises), and \<^verbatim>\<open>traceback.format_exception_only(type(exc), exc)\<close>. They
  are parameters of the model: every theorem holds for each choice of them.
\<close>

record python =
  py_repr :: "pyval \<Rightarrow> ustr"
  py_int_str :: "ustr \<Rightarrow> exc + int"
  format_exception_only :: "exc \<Rightarrow> ustr list"

text \<open>
  One entry of the document: a \<^verbatim>\<open>dict\<close> with the keys of the introspection format. A
  field is \<open>None\<close> when the key is absent. The keys that are present hold values of the
  types the format gives them: strings for \<^verbatim>\<open>name\<close>, \<^verbatim>\<open>type\<close>, \<^verbatim>\<open>section\<close> and
  \<^verbatim>\<open>description\<close>, a list of strings for \<^verbatim>\<open>choices\<close>, any value for \<^verbatim>\<open>value\<close>.
\<close>

record optentry =
  o_name :: "ustr option"
  o_type :: "ustr option"
  o_value :: "pyval option"
  o_choices :: "ustr list option"
  o_section :: "ustr option"
  o_description :: "ustr option"

text \<open>
  \<^verbatim>\<open>optentry[k]\<close>: \<^verbatim>\<open>KeyError\<close> when the key is absent.
\<close>

definition getitem :: "ustr \<Rightarrow> 'a option \<Rightarrow> exc + 'a" where
  "getitem k field = (case field of None \<Rightarrow> Inl (KeyError k) | Some x \<Rightarrow> Inr x)"

text \<open>
  Truth value of a document value, as \<^verbatim>\<open>'true' if v else 'false'\<close> tests it.
\<close>

fun truthy :: "pyval \<Rightarrow> bool" where
  "truthy VNone = False"
| "truthy (VBool b) = b"
| "truthy (VInt i) = (i \<noteq> 0)"
| "truthy (VStr s) = (s \<noteq> [])"
| "truthy (VList xs) = (xs \<noteq> [])"
| "truthy (VDict kvs) = (kvs \<noteq> [])"

section \<open>Numbers as text\<close>

text \<open>
  The digits of \<open>n\<close> in base \<open>b\<close>, most significant first (code point 48 is the digit 0).
\<close>

function radix :: "nat \<Rightarrow> nat \<Rightarrow> ustr" where
  "radix b n = (if n < b \<or> b < 2 then [48 + n] else radix b (n div b) @ [48 + n mod b])"
  by pat_completeness auto
termination
  by (relation "measure (\<lambda>(b, n). n)") auto

text \<open>
  The interpreter refuses to convert between an integer and a string of more than
  \<^verbatim>\<open>sys.get_int_max_str_digits()\<close> decimal digits, in either direction; the limit is
  4300 unless the interpreter is started with another one, and the program does not
  change it. The messages are those of CPython 3.11.
\<close>

definition max_str_digits :: nat where
  "max_str_digits = 4300"

text \<open>
  \<^verbatim>\<open>str(i)\<close> of an integer, which is also what \<^verbatim>\<open>'{}'.format(i)\<close> gives, and
  \<^verbatim>\<open>oct(i)\<close>, which has no limit.
\<close>

definition str_int :: "int \<Rightarrow> exc + ustr" where
  "str_int i =
     (let ds = radix 10 (nat \<bar>i\<bar>) in
      if max_str_digits < length ds
      then Inl (ValueError
             (lit ''Exceeds the limit ('' @ radix 10 max_str_digits
              @ lit '' digits) for integer string conversion; ''
              @ lit ''use sys.set_int_max_str_digits() to increase the limit''))
      else Inr (if i < 0 then lit ''-'' @ ds else ds))"

definition oct_int :: "int \<Rightarrow> ustr" where
  "oct_int i = (if i < 0 then lit ''-0o'' @ radix 8 (nat (- i)) else lit ''0o'' @ radix 8 (nat i))"

text \<open>
  \<^verbatim>\<open>oct(v)\<close> of a document value: a \<^verbatim>\<open>bool\<close> is an \<^verbatim>\<open>int\<close> in Python, every other
  kind of value raises \<^verbatim>\<open>TypeError\<close>.
\<close>

fun py_oct :: "pyval \<Rightarrow> exc + ustr" where
  "py_oct (VInt i) = Inr (oct_int i)"
| "py_oct (VBool b) = Inr (oct_int (if b then 1 else 0))"
| "py_oct v = Inl TypeError"

text \<open>
  \<^verbatim>\<open>int(s)\<close> on what \<^verbatim>\<open>oct(i)[2:]\<close> can be, a string of ASCII digits with or without
  a leading letter o: the digits are read in base ten when there are no more of them than
  the limit, and a string with any other character in it raises \<^verbatim>\<open>ValueError\<close> with
  the first 200 characters of the quoted string in the message.
\<close>

definition is_digit :: "nat \<Rightarrow> bool" where
  "is_digit c = (48 \<le> c \<and> c \<le> 57)"

definition int_digits :: "ustr \<Rightarrow> exc + int" where
  "int_digits s =
     (if s \<noteq> [] \<and> list_all is_digit s
      then
        if max_str_digits < length s
        then Inl (ValueError
               (lit ''Exceeds the limit ('' @ radix 10 max_str_digits
                @ lit '' digits) for integer string conversion: value has ''
                @ radix 10 (length s)
                @ lit '' digits; use sys.set_int_max_str_digits() to increase the limit''))
        else Inr (foldl (\<lambda>a c. 10 * a + int (c - 48)) 0 s)
      else Inl (ValueError
             (lit ''invalid literal for int() with base 10: '' @ take 200 (squote @ s @ squote))))"

text \<open>
  \<^verbatim>\<open>'{:03}'.format(n)\<close>: the digits of \<^verbatim>\<open>n\<close>, with zeros put after the sign up to
  three characters in all.
\<close>

definition zfill :: "nat \<Rightarrow> ustr \<Rightarrow> ustr" where
  "zfill w s = replicate (w - length s) 48 @ s"

definition fmt_03 :: "int \<Rightarrow> exc + ustr" where
  "fmt_03 n =
     (case str_int \<bar>n\<bar> of
        Inl e \<Rightarrow> Inl e
      | Inr ds \<Rightarrow> Inr (if n < 0 then lit ''-'' @ zfill 2 ds else zfill 3 ds))"

text \<open>
  \<^verbatim>\<open>def c_style_octal(i): return '0{:03}'.format(int(oct(i)[2:]))\<close>
\<close>

definition c_style_octal :: "pyval \<Rightarrow> exc + ustr" where
  "c_style_octal i =
     (case py_oct i of
        Inl e \<Rightarrow> Inl e
      | Inr s \<Rightarrow>
          (case int_digits (drop 2 s) of
             Inl e \<Rightarrow> Inl e
           | Inr n \<Rightarrow>
               (case fmt_03 n of
                  Inl e \<Rightarrow> Inl e
                | Inr f \<Rightarrow> Inr (lit ''0'' @ f))))"

text \<open>
  \<^verbatim>\<open>int(v)\<close> of a document value.
\<close>

fun py_int :: "python \<Rightarrow> pyval \<Rightarrow> exc + int" where
  "py_int py (VInt i) = Inr i"
| "py_int py (VBool b) = Inr (if b then 1 else 0)"
| "py_int py (VStr s) = py_int_str py s"
| "py_int py v = Inl TypeError"

section \<open>The record normalizer\<close>

text \<open>
  \<^verbatim>\<open>generate_choices\<close>: the choices of a combo entry (\<^verbatim>\<open>optentry.get('choices', [])\<close>),
  the two literals of a boolean entry, \<^verbatim>\<open>None\<close> for every other type.
\<close>

definition generate_choices :: "optentry \<Rightarrow> exc + ustr list option" where
  "generate_choices optentry =
     (case getitem (lit ''type'') (o_type optentry) of
        Inl e \<Rightarrow> Inl e
      | Inr t \<Rightarrow>
          if t = lit ''combo''
          then Inr (Some (case o_choices optentry of None \<Rightarrow> [] | Some cs \<Rightarrow> cs))
          else if t = lit ''boolean'' then Inr (Some [lit ''false'', lit ''true''])
          else Inr None)"

definition simple_hint :: "ustr \<Rightarrow> ustr" where
  "simple_hint i = lit ''<'' @ i @ lit ''>''"

text \<open>
  \<^verbatim>\<open>generate_hint\<close>. The keys are read in the order of the source: \<^verbatim>\<open>value\<close>,
  \<^verbatim>\<open>type\<close>, then \<^verbatim>\<open>name\<close>.
\<close>

definition generate_hint :: "python \<Rightarrow> optentry \<Rightarrow> exc + ustr" where
  "generate_hint py optentry =
     (case getitem (lit ''value'') (o_value optentry) of
        Inl e \<Rightarrow> Inl e
      | Inr v \<Rightarrow>
     (case getitem (lit ''type'') (o_type optentry) of
        Inl e \<Rightarrow> Inl e
      | Inr t \<Rightarrow>
          if t = lit ''boolean''
          then Inr (simple_hint (if truthy v then lit ''true'' else lit ''false''))
          else
     (case getitem (lit ''name'') (o_name optentry) of
        Inl e \<Rightarrow> Inl e
      | Inr n \<Rightarrow>
          if n = lit ''install_umask''
          then (case c_style_octal v of Inl e \<Rightarrow> Inl e | Inr s \<Rightarrow> Inr (simple_hint s))
          else if t = lit ''integer''
          then
            (case py_int py v of
               Inl e \<Rightarrow> Inl e
             | Inr i \<Rightarrow> (case str_int i of Inl e \<Rightarrow> Inl e | Inr s \<Rightarrow> Inr (simple_hint s)))
          else Inr (simple_hint (py_repr py v)))))"

section \<open>Quoting and tags\<close>

text \<open>
  \<^verbatim>\<open>shlex.quote\<close> of the Python library: the empty string becomes two single quotes, a
  string of safe characters (\<^verbatim>\<open>[\w@%+=:,./-]\<close>, ASCII only) is returned as it is, and
  any other string is put between single quotes with every single quote of it replaced by
  \<^verbatim>\<open>'"'"'\<close>.
\<close>

definition ascii_alnum :: "nat \<Rightarrow> bool" where
  "ascii_alnum c = ((48 \<le> c \<and> c \<le> 57) \<or> (65 \<le> c \<and> c \<le> 90) \<or> (97 \<le> c \<and> c \<le> 122))"

definition shell_safe :: "nat \<Rightarrow> bool" where
  "shell_safe c = (ascii_alnum c \<or> c \<in> set (lit ''_@%+=:,./-''))"

definition quote :: "ustr \<Rightarrow> ustr" where
  "quote s =
     (if s = [] then squote @ squote
      else if list_all shell_safe s then s
      else squote @ replace_str s squote (squote @ dquote @ squote @ dquote @ squote) @ squote)"

text \<open>
  \<^verbatim>\<open>zsh_tag\<close>: \<^verbatim>\<open>asciify(c) = c if ord(c) < 0x80 and c.isalnum() else '-'\<close>.
\<close>

definition asciify :: "nat \<Rightarrow> ustr" where
  "asciify c = (if c < 128 \<and> ascii_alnum c then [c] else lit ''-'')"

definition zsh_tag :: "ustr \<Rightarrow> ustr" where
  "zsh_tag k = concat (map asciify k)"

section \<open>The code generator\<close>

text \<open>
  \<^verbatim>\<open>generate_compadd_choices\<close>: the two lines of a branch of the value-completion
  function, \<^verbatim>\<open>_wanted ... compadd -\<close> with the quoted choices when there are choices and
  \<^verbatim>\<open>_message\<close> when there are none. The source calls \<^verbatim>\<open>generate_choices\<close> a
  second time for the list it quotes; the function has no effect, so the result is the
  same.
\<close>

definition generate_compadd_choices :: "optentry \<Rightarrow> exc + ustr" where
  "generate_compadd_choices opt =
     (case getitem (lit ''description'') (o_description opt) of
        Inl e \<Rightarrow> Inl e
      | Inr d \<Rightarrow>
     (case getitem (lit ''type'') (o_type opt) of
        Inl e \<Rightarrow> Inl e
      | Inr t \<Rightarrow>
     (case generate_choices opt of
        Inl e \<Rightarrow> Inl e
      | Inr choices \<Rightarrow>
          let decl = lit ''descr='' @ quote d;
              value_descr =
                lit ''${(qqq)descr//'' @ bslash @ lit ''%/%%}'' @ quote (lit '' ('' @ t @ lit '')'');
              compadd =
                (case choices of
                   Some cs \<Rightarrow>
                     join (lit '' '')
                       [lit ''_wanted'', lit ''-V'', lit ''build-option-values'', lit ''expl'',
                        value_descr, lit ''compadd -'', join (lit '' '') (map quote cs)]
                 | None \<Rightarrow>
                     join (lit '' '')
                       [lit ''_message'', lit ''-e'', lit ''build-option-values'', value_descr])
          in Inr (join nl [lit ''    '' @ decl, lit ''    '' @ compadd]))))"

text \<open>
  A Python \<^verbatim>\<open>dict\<close> keeps its keys in the order they were first inserted. It is a list
  of pairs with distinct keys: \<open>dict_set\<close> is \<^verbatim>\<open>d[k] = v\<close> (an existing key keeps its
  place), \<open>dict_setdefault\<close> is \<^verbatim>\<open>d.setdefault(k, v)\<close>, \<open>dict_append\<close> is
  \<^verbatim>\<open>d[k].append(x)\<close> for a key that is present, \<open>dict_pop\<close> is what is left after
  \<^verbatim>\<open>d.pop(k)\<close>.
\<close>

fun dict_set :: "'k \<Rightarrow> 'v \<Rightarrow> ('k \<times> 'v) list \<Rightarrow> ('k \<times> 'v) list" where
  "dict_set k v [] = [(k, v)]"
| "dict_set k v ((k', v') # d) = (if k' = k then (k', v) # d else (k', v') # dict_set k v d)"

definition dict_setdefault :: "'k \<Rightarrow> 'v \<Rightarrow> ('k \<times> 'v) list \<Rightarrow> ('k \<times> 'v) list" where
  "dict_setdefault k v d = (case map_of d k of None \<Rightarrow> d @ [(k, v)] | Some x \<Rightarrow> d)"

definition dict_append :: "'k \<Rightarrow> 'a \<Rightarrow> ('k \<times> 'a list) list \<Rightarrow> ('k \<times> 'a list) list" where
  "dict_append k x d = map (\<lambda>(k', v). if k' = k then (k', v @ [x]) else (k', v)) d"

definition dict_pop :: "'k \<Rightarrow> ('k \<times> 'v) list \<Rightarrow> ('k \<times> 'v) list" where
  "dict_pop k d = filter (\<lambda>(k', v). k' \<noteq> k) d"

text \<open>
  The body of the loop over the entries. The state is the pair of the dictionaries
  \<^verbatim>\<open>by_section\<close> and \<^verbatim>\<open>switch_entries\<close>. The keys are read in the order of the source,
  so the first missing one is the one reported.
\<close>

type_synonym gen_state = "(ustr \<times> ustr list) list \<times> (ustr \<times> ustr) list"

definition describe_spec :: "ustr \<Rightarrow> ustr \<Rightarrow> ustr \<Rightarrow> ustr" where
  "describe_spec name description hint =
     fsemic name @ lit '':'' @ fsemic (description @ lit '' '' @ hint)"

definition switch_entry :: "ustr \<Rightarrow> ustr \<Rightarrow> ustr" where
  \<open>switch_entry name compadd = join nl [lit ''  ("'' @ name @ lit ''")'', compadd, lit ''  ;;'']\<close>

definition loop_body :: "python \<Rightarrow> optentry \<Rightarrow> gen_state \<Rightarrow> exc + gen_state" where
  "loop_body py opt st =
     (case st of (by_section, switch_entries) \<Rightarrow>
     (case getitem (lit ''section'') (o_section opt) of
        Inl e \<Rightarrow> Inl e
      | Inr gr \<Rightarrow>
     (case getitem (lit ''name'') (o_name opt) of
        Inl e \<Rightarrow> Inl e
      | Inr name \<Rightarrow>
     (case getitem (lit ''description'') (o_description opt) of
        Inl e \<Rightarrow> Inl e
      | Inr description \<Rightarrow>
     (case generate_hint py opt of
        Inl e \<Rightarrow> Inl e
      | Inr hint \<Rightarrow>
     (case generate_compadd_choices opt of
        Inl e \<Rightarrow> Inl e
      | Inr compadd \<Rightarrow>
          Inr (dict_append gr (quote (describe_spec name description hint))
                 (dict_setdefault gr [] by_section),
               dict_set name (switch_entry name compadd) switch_entries)))))))"

fun options_loop :: "python \<Rightarrow> optentry list \<Rightarrow> gen_state \<Rightarrow> exc + gen_state" where
  "options_loop py [] st = Inr st"
| "options_loop py (opt # i_data) st =
     (case loop_body py opt st of
        Inl e \<Rightarrow> Inl e
      | Inr st' \<Rightarrow> options_loop py i_data st')"

text \<open>
  \<^verbatim>\<open>user_first\<close>: the items of the dictionary, those of the key \<^verbatim>\<open>user\<close> first when
  the key is there.
\<close>

definition user_first :: "(ustr \<times> 'v) list \<Rightarrow> (ustr \<times> 'v) list" where
  "user_first d =
     (case map_of d (lit ''user'') of
        Some u \<Rightarrow> (lit ''user'', u) # dict_pop (lit ''user'') d
      | None \<Rightarrow> d)"

text \<open>
  The declaration of a section's array and the word of its alternative, for one item
  \<^verbatim>\<open>(k, v)\<close> of \<^verbatim>\<open>by_section\<close>.
\<close>

definition specs_arr :: "ustr \<Rightarrow> ustr" where
  "specs_arr k = lit ''__ndescgroup_'' @ zsh_tag k"

definition alt_decl :: "ustr \<times> ustr list \<Rightarrow> ustr" where
  "alt_decl kv =
     (case kv of (k, v) \<Rightarrow>
        lit ''  local -a '' @ specs_arr k @ lit ''=('' @ nl @ lit ''    ''
          @ join (nl @ lit ''    '') v @ nl @ lit ''  )'')"

definition alt_word :: "ustr \<times> ustr list \<Rightarrow> ustr" where
  \<open>alt_word kv =
     (case kv of (k, v) \<Rightarrow>
        quote (zsh_tag k @ lit ''-options:'' @ k @ lit '' option:(( "${(@)'' @ specs_arr k
          @ lit ''}" ))''))\<close>

definition name_function :: "(ustr \<times> ustr list) list \<Rightarrow> ustr" where
  \<open>name_function sections =
     join nl
       [lit ''__meson_project_buildoptions() {'',
        lit ''  # This function loops over tag labels itself.'',
        join nl (map alt_decl sections),
        lit ''  local -a alternative_argv=( "$@" )'',
        lit ''  _alternative -O alternative_argv '' @ join (lit '' '') (map alt_word sections),
        lit ''}'' @ nl]\<close>

definition value_function :: "ustr list \<Rightarrow> ustr" where
  \<open>value_function branches =
     join nl
       [lit ''__meson_project_buildoption_choices() {'',
        lit ''  # This function loops over tag labels itself.'',
        lit ''  local m_optname="$1"'',
        lit ''  local descr'',
        lit ''  case "$m_optname" in'',
        join nl branches,
        lit ''  *)'',
        lit ''    _message "unknown option; cannot offer choices"'' @ lit ''  ;;'',
        lit ''  esac'',
        lit ''}'' @ nl]\<close>

text \<open>
  \<^verbatim>\<open>complete_build_options\<close>: the loop, then the two function definitions joined by a
  newline. \<^verbatim>\<open>alt_decls\<close> and \<^verbatim>\<open>alt_words\<close> are built in the order of
  \<^verbatim>\<open>user_first(by_section)\<close>, the branches in the order of
  \<^verbatim>\<open>switch_entries.values()\<close>.
\<close>

definition complete_build_options :: "python \<Rightarrow> optentry list \<Rightarrow> exc + ustr" where
  "complete_build_options py i_data =
     (case options_loop py i_data ([], []) of
        Inl e \<Rightarrow> Inl e
      | Inr (by_section, switch_entries) \<Rightarrow>
          Inr (join nl [name_function (user_first by_section),
                        value_function (map snd switch_entries)]))"

section \<open>The failure reporter\<close>








section \<open>Arguments and the main program\<close>














section \<open>Notions used in the statements\<close>

text \<open>
  The two passes of \<open>fsemic\<close>, and the property the first pass establishes: every colon
  comes right after a backslash. The flag of \<open>colons_escaped\<close> says whether the character
  before the string is a backslash (code point 92; the colon is 58).
\<close>

definition escape_colons :: "ustr \<Rightarrow> ustr" where
  "escape_colons s = replace_str s [58] [92, 58]"

definition merge_backslashes :: "ustr \<Rightarrow> ustr" where
  "merge_backslashes s = replace_str s [92, 92, 58] [92, 58]"

fun colons_escaped :: "bool \<Rightarrow> ustr \<Rightarrow> bool" where
  "colons_escaped b [] = True"
| "colons_escaped b (c # cs) = ((c = 58 \<longrightarrow> b) \<and> colons_escaped (c = 92) cs)"

text \<open>
  The number a string of decimal digits denotes.
\<close>

definition read10 :: "ustr \<Rightarrow> nat" where
  "read10 s = foldl (\<lambda>a c. 10 * a + (c - 48)) 0 s"









text \<open>
  Inputs of the examples: an interpreter whose library functions return nothing (the
  examples where it stands never call them); one that formats an exception as
  \<^verbatim>\<open>traceback.format_exception_only\<close> does, in one string made of the class name, the
  message (verbatim, whatever it holds) and a newline, the message of a
  \<^verbatim>\<open>UnicodeEncodeError\<close>, which names the codec and the position, being left out; a
  world where every file opens, the document has no entry and standard output is strict
  UTF-8, which encodes every code point but the surrogates; and an entry with all its keys
  but \<^verbatim>\<open>choices\<close>, which is given as an option.
\<close>

abbreviation bare_python :: python where
  "bare_python \<equiv>
     \<lparr>py_repr = (\<lambda>v. []), py_int_str = (\<lambda>s. Inl TypeError),
      format_exception_only = (\<lambda>e. [])\<rparr>"



abbreviation entry ::
  "string \<Rightarrow> string \<Rightarrow> pyval \<Rightarrow> ustr list option \<Rightarrow> string \<Rightarrow> string \<Rightarrow> optentry" where
  "entry n t v cs s d \<equiv>
     \<lparr>o_name = Some (lit n), o_type = Some (lit t), o_value = Some v, o_choices = cs,
      o_section = Some (lit s), o_description = Some (lit d)\<rparr>"

section \<open>String replacement and the colon escapes\<close>

lemma escape_colons_Nil: "escape_colons [] = []"
  by (simp add: escape_colons_def)

lemma escape_colons_Cons:
  "escape_colons (c # cs) = (if c = 58 then 92 # 58 # escape_colons cs else c # escape_colons cs)"
  by (simp add: escape_colons_def)

lemma merge_backslashes_Nil: "merge_backslashes [] = []"
  by (simp add: merge_backslashes_def)

lemma merge_backslashes_hit: "merge_backslashes (92 # 92 # 58 # r) = 92 # 58 # merge_backslashes r"
  by (simp add: merge_backslashes_def)

lemma merge_backslashes_miss:
  "\<not> (\<exists>r. c # cs = 92 # 92 # 58 # r) \<Longrightarrow> merge_backslashes (c # cs) = c # merge_backslashes cs"
  by (auto simp: merge_backslashes_def prefix_def)

lemma colons_escaped_escape: "colons_escaped b (escape_colons s)"
  by (induction s arbitrary: b) (simp_all add: escape_colons_Nil escape_colons_Cons)

lemma colons_escaped_merge: "colons_escaped b s \<Longrightarrow> colons_escaped b (merge_backslashes s)"
proof (induction s arbitrary: b rule: length_induct)
  case (1 s)
  show ?case
  proof (cases s)
    case Nil
    then show ?thesis by (simp add: merge_backslashes_Nil)
  next
    case (Cons c cs)
    show ?thesis
    proof (cases "\<exists>r. c # cs = 92 # 92 # 58 # r")
      case True
      then obtain r where r: "cs = 92 # 58 # r" and c: "c = 92"
        by auto
      have "colons_escaped False r"
        using "1.prems" Cons r c by simp
      moreover have "length r < length s"
        using Cons r by simp
      ultimately have "colons_escaped False (merge_backslashes r)"
        using "1.IH" by blast
      then show ?thesis
        using Cons r c by (simp add: merge_backslashes_hit)
    next
      case False
      have "colons_escaped (c = 92) cs"
        using "1.prems" Cons by simp
      moreover have "length cs < length s"
        using Cons by simp
      ultimately have "colons_escaped (c = 92) (merge_backslashes cs)"
        using "1.IH" by blast
      then show ?thesis
        using Cons "1.prems" by (simp add: merge_backslashes_miss[OF False])
    qed
  qed
qed

lemma escape_colons_no_leading_colon: "escape_colons s \<noteq> 58 # r"
  by (cases s) (simp_all add: escape_colons_Nil escape_colons_Cons)

text \<open>
  On a string whose colons are all escaped, the second pass undoes the first.
\<close>

lemma merge_escape_id: "colons_escaped False s \<Longrightarrow> merge_backslashes (escape_colons s) = s"
proof (induction s rule: length_induct)
  case (1 s)
  show ?case
  proof (cases s)
    case Nil
    then show ?thesis by (simp add: escape_colons_Nil merge_backslashes_Nil)
  next
    case (Cons c cs)
    have c58: "c \<noteq> 58"
      using "1.prems" Cons by simp
    show ?thesis
    proof (cases "c = 92 \<and> (\<exists>r. cs = 58 # r)")
      case True
      then obtain r where r: "cs = 58 # r" and c: "c = 92"
        by blast
      have "colons_escaped False r"
        using "1.prems" Cons r c by simp
      moreover have "length r < length s"
        using Cons r by simp
      ultimately have "merge_backslashes (escape_colons r) = r"
        using "1.IH" by blast
      then show ?thesis
        using Cons r c by (simp add: escape_colons_Cons merge_backslashes_hit)
    next
      case False
      have ok: "colons_escaped False cs"
      proof (cases cs)
        case Nil
        then show ?thesis by simp
      next
        case (Cons d ds)
        then show ?thesis
          using "1.prems" \<open>s = c # cs\<close> False by auto
      qed
      have "length cs < length s"
        using Cons by simp
      with ok have ih: "merge_backslashes (escape_colons cs) = cs"
        using "1.IH" by blast
      have np: "\<not> (\<exists>r. c # escape_colons cs = 92 # 92 # 58 # r)"
      proof
        assume "\<exists>r. c # escape_colons cs = 92 # 92 # 58 # r"
        then obtain r where e: "escape_colons cs = 92 # 58 # r" and c: "c = 92"
          by auto
        show False
        proof (cases cs)
          case Nil
          then show ?thesis
            using e by (simp add: escape_colons_Nil)
        next
          case (Cons d ds)
          show ?thesis
          proof (cases "d = 58")
            case True
            then show ?thesis
              using False c Cons by simp
          next
            case d: False
            then have "escape_colons ds = 58 # r"
              using e Cons by (simp add: escape_colons_Cons)
            then show ?thesis
              using escape_colons_no_leading_colon by blast
          qed
        qed
      qed
      show ?thesis
        using Cons c58 ih by (simp add: escape_colons_Cons merge_backslashes_miss[OF np])
    qed
  qed
qed

lemma fsemic_passes: "fsemic s = merge_backslashes (escape_colons s)"
  by (simp add: fsemic_def escape_colons_def merge_backslashes_def lit_def bslash_def)

text \<open>
  C3. Escaping rule A is idempotent: \<open>fsemic\<close> applied to its own output returns that
  output unchanged, for every string; and \<open>fsemic\<close> of \<^verbatim>\<open>a:b\<close> is \<^verbatim>\<open>a\:b\<close>, with one
  backslash before the colon.
\<close>

theorem fsemic_idempotent:
  "fsemic (fsemic s) = fsemic s \<and> fsemic (lit ''a:b'') = lit ''a'' @ bslash @ lit '':b''"
proof
  show "fsemic (fsemic s) = fsemic s"
    unfolding fsemic_passes
    by (intro merge_escape_id colons_escaped_merge colons_escaped_escape)
  show "fsemic (lit ''a:b'') = lit ''a'' @ bslash @ lit '':b''"
    by (simp add: fsemic_def lit_def bslash_def)
qed

theorem fsemic_idempotent_witness:
  "fsemic (fsemic (lit ''a:b'')) = lit ''a'' @ bslash @ lit '':b''"
proof -
  have "fsemic (fsemic (lit ''a:b'')) = fsemic (lit ''a:b'')"
    using fsemic_idempotent [of "lit ''a:b''"] by (rule conjunct1)
  also have "\<dots> = lit ''a'' @ bslash @ lit '':b''"
    using fsemic_idempotent [of "lit ''a:b''"] by (rule conjunct2)
  finally show ?thesis .
qed

text \<open>
  C2 as the specification states it, rule B turning \<^verbatim>\<open>a:b\<close> into \<^verbatim>\<open>a::b\<close>, does not
  hold of \<open>dsemic\<close>.
\<close>

theorem dsemic_not_doubled_colon: "dsemic (lit ''a:b'') \<noteq> lit ''a::b''"
  by (simp add: dsemic_def lit_def bslash_def)

text \<open>
  C2, amended. For every string, \<open>dsemic\<close> replaces each colon by two backslashes and a
  colon and leaves every other character as it is; \<open>dsemic\<close> of \<^verbatim>\<open>a:b\<close> is
  \<^verbatim>\<open>a\\:b\<close>.
\<close>

theorem dsemic_two_backslashes:
  "dsemic s = concat (map (\<lambda>c. if [c] = lit '':'' then bslash @ bslash @ lit '':'' else [c]) s)
   \<and> dsemic (lit ''a:b'') = lit ''a'' @ bslash @ bslash @ lit '':b''"
proof
  show "dsemic s = concat (map (\<lambda>c. if [c] = lit '':'' then bslash @ bslash @ lit '':'' else [c]) s)"
    by (induction s) (simp_all add: dsemic_def lit_def bslash_def)
  show "dsemic (lit ''a:b'') = lit ''a'' @ bslash @ bslash @ lit '':b''"
    by (simp add: dsemic_def lit_def bslash_def)
qed

theorem dsemic_two_backslashes_witness:
  "dsemic (lit ''x:y:z'') = lit ''x'' @ bslash @ bslash @ lit '':y'' @ bslash @ bslash @ lit '':z''"
  using dsemic_two_backslashes [of "lit ''x:y:z''"] by (simp add: lit_def bslash_def)

section \<open>Digits\<close>

lemma radix_small: "n < b \<Longrightarrow> radix b n = [48 + n]"
  by simp

lemma radix_big: "2 \<le> b \<Longrightarrow> b \<le> n \<Longrightarrow> radix b n = radix b (n div b) @ [48 + n mod b]"
  by (subst radix.simps) simp

declare radix.simps [simp del]

lemma radix_not_Nil: "radix b n \<noteq> []"
  by (subst radix.simps) simp

lemma radix_digits: "2 \<le> b \<Longrightarrow> list_all (\<lambda>c. 48 \<le> c \<and> c < 48 + b) (radix b n)"
proof (induction b n rule: radix.induct)
  case (1 b n)
  show ?case
  proof (cases "n < b")
    case True
    then show ?thesis by (simp add: radix_small)
  next
    case False
    with 1 show ?thesis by (simp add: radix_big)
  qed
qed

lemma radix_hd: "2 \<le> b \<Longrightarrow> 0 < n \<Longrightarrow> hd (radix b n) \<noteq> 48"
proof (induction b n rule: radix.induct)
  case (1 b n)
  show ?case
  proof (cases "n < b")
    case True
    then show ?thesis using 1 by (simp add: radix_small)
  next
    case False
    then have "0 < n div b"
      using 1(2) by (simp add: div_greater_zero_iff)
    with 1 False show ?thesis by (simp add: radix_big radix_not_Nil)
  qed
qed

lemma radix_value: "2 \<le> b \<Longrightarrow> foldl (\<lambda>a c. b * a + (c - 48)) 0 (radix b n) = n"
proof (induction b n rule: radix.induct)
  case (1 b n)
  show ?case
  proof (cases "n < b")
    case True
    then show ?thesis by (simp add: radix_small)
  next
    case False
    with 1 show ?thesis by (simp add: radix_big)
  qed
qed

lemma read10_snoc: "read10 (s @ [c]) = 10 * read10 s + (c - 48)"
  by (simp add: read10_def)

lemma foldl_int_digits:
  "foldl (\<lambda>a c. 10 * a + int (c - 48)) (int k) s = int (foldl (\<lambda>a c. 10 * a + (c - 48)) k s)"
proof (induction s arbitrary: k)
  case Nil
  show ?case by simp
next
  case (Cons a s)
  have "10 * int k + int (a - 48) = int (10 * k + (a - 48))"
    by simp
  then show ?case
    using Cons.IH[of "10 * k + (a - 48)"] by simp
qed

lemma read10_pos: "s \<noteq> [] \<Longrightarrow> list_all is_digit s \<Longrightarrow> hd s \<noteq> 48 \<Longrightarrow> 0 < read10 s"
proof (induction s rule: rev_induct)
  case Nil
  then show ?case by simp
next
  case (snoc c s)
  show ?case
  proof (cases "s = []")
    case True
    then show ?thesis
      using snoc.prems by (auto simp: read10_def is_digit_def)
  next
    case False
    then have "0 < read10 s"
      using snoc by simp
    then show ?thesis by (simp add: read10_snoc)
  qed
qed

text \<open>
  Writing in base ten the number that a string of digits denotes gives the string back,
  when the string has no needless leading zero.
\<close>

lemma radix10_read10:
  "s \<noteq> [] \<Longrightarrow> list_all is_digit s \<Longrightarrow> length s = 1 \<or> hd s \<noteq> 48 \<Longrightarrow> radix 10 (read10 s) = s"
proof (induction s rule: rev_induct)
  case Nil
  then show ?case by simp
next
  case (snoc c s)
  have c: "48 \<le> c" "c \<le> 57"
    using snoc.prems by (simp_all add: is_digit_def)
  show ?case
  proof (cases "s = []")
    case True
    then show ?thesis
      using c by (simp add: read10_def radix_small)
  next
    case False
    then have hd: "hd s \<noteq> 48"
      using snoc.prems by (cases s) auto
    have dig: "list_all is_digit s"
      using snoc.prems by simp
    have pos: "0 < read10 s"
      using read10_pos[OF False dig hd] .
    have ih: "radix 10 (read10 s) = s"
      using snoc.IH[OF False dig] hd by simp
    define d where "d = c - 48"
    have d: "c = 48 + d" "d < 10"
      using c by (simp_all add: d_def)
    have "(10 * read10 s + (c - 48)) div 10 = read10 s"
      using d by simp
    moreover have "48 + (10 * read10 s + (c - 48)) mod 10 = c"
      using d by simp
    moreover have "10 \<le> 10 * read10 s + (c - 48)"
      using pos by simp
    ultimately show ?thesis
      using ih by (simp add: read10_snoc radix_big)
  qed
qed

lemma radix8_shape:
  "radix 8 n \<noteq> [] \<and> list_all is_digit (radix 8 n)
   \<and> (length (radix 8 n) = 1 \<or> hd (radix 8 n) \<noteq> 48)"
proof -
  have "list_all (\<lambda>c. 48 \<le> c \<and> c < 48 + 8) (radix 8 n)"
    by (rule radix_digits) simp
  then have "list_all is_digit (radix 8 n)"
    by (auto simp: is_digit_def list_all_iff)
  moreover have "length (radix 8 n) = 1 \<or> hd (radix 8 n) \<noteq> 48"
  proof (cases "n = 0")
    case True
    then show ?thesis by (simp add: radix_small)
  next
    case False
    then show ?thesis
      using radix_hd[of 8 n] by simp
  qed
  ultimately show ?thesis by (simp add: radix_not_Nil)
qed

lemma radix_length_le:
  "2 \<le> b \<Longrightarrow> 1 \<le> k \<Longrightarrow> length (radix b n) \<le> k \<longleftrightarrow> n < b ^ k"
proof (induction b n arbitrary: k rule: radix.induct)
  case (1 b n)
  show ?case
  proof (cases "n < b")
    case True
    have "b ^ 1 \<le> b ^ k"
      using "1.prems" by (intro power_increasing) simp_all
    then have "n < b ^ k"
      using True by simp
    then show ?thesis
      using True "1.prems" by (simp add: radix_small)
  next
    case False
    show ?thesis
    proof (cases "k = 1")
      case True
      then show ?thesis
        using False "1.prems" radix_not_Nil[of b "n div b"]
        by (simp add: radix_big Suc_le_eq)
    next
      case k: False
      then obtain j where j: "k = Suc j" "1 \<le> j"
        using "1.prems" by (cases k) auto
      have ih: "length (radix b (n div b)) \<le> j \<longleftrightarrow> n div b < b ^ j"
        using "1.IH"[of j] False "1.prems" j by simp
      have "n div b < b ^ j \<longleftrightarrow> n < b ^ j * b"
        using "1.prems" by (simp add: div_less_iff_less_mult)
      then show ?thesis
        using ih False "1.prems" j by (simp add: radix_big mult.commute)
    qed
  qed
qed

lemma c_style_octal_nonneg:
  assumes "0 \<le> v" and "length (radix 8 (nat v)) \<le> max_str_digits"
  shows "c_style_octal (VInt v) = Inr (lit ''0'' @ zfill 3 (radix 8 (nat v)))"
proof -
  let ?s = "radix 8 (nat v)"
  have sh: "?s \<noteq> []" "list_all is_digit ?s" "length ?s = 1 \<or> hd ?s \<noteq> 48"
    using radix8_shape[of "nat v"] by simp_all
  have "int_digits ?s = Inr (int (read10 ?s))"
    using sh assms(2) foldl_int_digits[of 0 ?s] by (simp add: int_digits_def read10_def)
  moreover have "fmt_03 (int (read10 ?s)) = Inr (zfill 3 ?s)"
    using radix10_read10[OF sh] assms(2) by (simp add: fmt_03_def str_int_def)
  ultimately show ?thesis
    using assms(1) by (simp add: c_style_octal_def oct_int_def lit_def)
qed

lemma c_style_octal_too_long:
  assumes "0 \<le> v" and "max_str_digits < length (radix 8 (nat v))"
  shows "\<exists>msg. c_style_octal (VInt v) = Inl (ValueError msg)"
proof -
  let ?s = "radix 8 (nat v)"
  have sh: "?s \<noteq> []" "list_all is_digit ?s"
    using radix8_shape[of "nat v"] by simp_all
  have "\<exists>msg. int_digits ?s = Inl (ValueError msg)"
    using sh assms(2) by (simp add: int_digits_def)
  then show ?thesis
    using assms(1) by (auto simp: c_style_octal_def oct_int_def lit_def)
qed

lemma c_style_octal_negative:
  assumes "v < 0"
  shows "\<exists>msg. c_style_octal (VInt v) = Inl (ValueError msg)"
proof -
  have "\<not> is_digit 111"
    by (simp add: is_digit_def)
  then have "\<exists>msg. int_digits (111 # radix 8 (nat (- v))) = Inl (ValueError msg)"
    by (simp add: int_digits_def)
  then show ?thesis
    using assms by (auto simp: c_style_octal_def oct_int_def lit_def)
qed

section \<open>The record normalizer: choices and hints\<close>

text \<open>
  C7. For every entry of type boolean the choices are the two strings \<^verbatim>\<open>false\<close> and
  \<^verbatim>\<open>true\<close>, in that order, and the hint is \<^verbatim>\<open><true>\<close> when the value is true and
  \<^verbatim>\<open><false>\<close> when it is false.
\<close>

theorem boolean_choices_and_hint:
  assumes "o_type opt = Some (lit ''boolean'')"
  shows "generate_choices opt = Inr (Some [lit ''false'', lit ''true''])
    \<and> (o_value opt = Some (VBool b) \<longrightarrow>
          generate_hint py opt = Inr (if b then lit ''<true>'' else lit ''<false>''))"
  using assms
  by (simp add: generate_choices_def generate_hint_def getitem_def simple_hint_def lit_def)

theorem boolean_choices_and_hint_witness:
  "generate_choices
     (entry ''strip'' ''boolean'' (VBool False) None ''core'' ''Strip'')
     = Inr (Some [lit ''false'', lit ''true''])
   \<and> generate_hint
     bare_python
     (entry ''strip'' ''boolean'' (VBool False) None ''core'' ''Strip'')
     = Inr (lit ''<false>'')"
  using boolean_choices_and_hint
    [of "entry ''strip'' ''boolean'' (VBool False) None ''core'' ''Strip''"
        False
        "bare_python"]
  by simp

text \<open>
  C8 as the specification states it, for every integer value, does not hold: for the
  value -18 \<^verbatim>\<open>oct\<close> gives \<^verbatim>\<open>-0o22\<close>, the slice \<^verbatim>\<open>[2:]\<close> leaves \<^verbatim>\<open>o22\<close>, and
  \<^verbatim>\<open>int\<close> raises \<^verbatim>\<open>ValueError\<close>: no hint is computed.
\<close>

theorem umask_hint_negative:
  "generate_hint
     bare_python
     (entry ''install_umask'' ''integer'' (VInt (- 18)) None ''core'' ''umask'')
   = Inl (ValueError (lit ''invalid literal for int() with base 10: '' @ squote @ lit ''o22'' @ squote))"
  by (simp add: generate_hint_def getitem_def c_style_octal_def oct_int_def int_digits_def
      is_digit_def radix_big radix_small lit_def squote_def)

text \<open>
  C8, amended. For the entry named \<^verbatim>\<open>install_umask\<close>, of a type other than boolean,
  with an integer value \<open>v\<close>: when \<open>v\<close> is not negative and is less than 8 to the power
  4300, that is when its octal digits are no more than the interpreter converts, the hint
  is \<open>v\<close> written in octal (most significant digit first), filled with zeros on the left
  to three digits, after one more zero and between angle brackets; for \<open>v = 18\<close> it is
  \<^verbatim>\<open><0022>\<close>. When \<open>v\<close> is negative, or is 8 to the power 4300 or more,
  \<^verbatim>\<open>ValueError\<close> is raised and no hint is computed.
\<close>

theorem umask_hint:
  assumes "o_name opt = Some (lit ''install_umask'')"
    and "o_type opt = Some t" and "t \<noteq> lit ''boolean''"
    and "o_value opt = Some (VInt v)"
  shows "(0 \<le> v \<and> v < 8 ^ max_str_digits \<longrightarrow>
            generate_hint py opt = Inr (lit ''<0'' @ zfill 3 (radix 8 (nat v)) @ lit ''>''))
    \<and> (v < 0 \<or> 8 ^ max_str_digits \<le> v \<longrightarrow> (\<exists>msg. generate_hint py opt = Inl (ValueError msg)))
    \<and> (0 \<le> v \<longrightarrow> foldl (\<lambda>a c. 8 * a + (c - 48)) 0 (radix 8 (nat v)) = nat v
          \<and> list_all (\<lambda>c. 48 \<le> c \<and> c < 56) (radix 8 (nat v))
          \<and> (length (radix 8 (nat v)) \<le> max_str_digits \<longleftrightarrow> v < 8 ^ max_str_digits))
    \<and> (v = 18 \<longrightarrow> generate_hint py opt = Inr (lit ''<0022>''))"
proof -
  have one: "1 \<le> max_str_digits"
    by (simp add: max_str_digits_def)
  have len: "length (radix 8 (nat v)) \<le> max_str_digits \<longleftrightarrow> v < 8 ^ max_str_digits" if "0 \<le> v"
  proof -
    have "length (radix 8 (nat v)) \<le> max_str_digits \<longleftrightarrow> nat v < 8 ^ max_str_digits"
      using one by (intro radix_length_le) simp_all
    also have "\<dots> \<longleftrightarrow> v < 8 ^ max_str_digits"
      using that by (simp add: nat_less_iff)
    finally show ?thesis .
  qed
  have h: "generate_hint py opt = (case c_style_octal (VInt v) of Inl e \<Rightarrow> Inl e | Inr s \<Rightarrow> Inr (simple_hint s))"
    using assms by (simp add: generate_hint_def getitem_def)
  have a: "generate_hint py opt = Inr (lit ''<0'' @ zfill 3 (radix 8 (nat v)) @ lit ''>'')"
    if "0 \<le> v" "v < 8 ^ max_str_digits"
    using that len h by (simp add: c_style_octal_nonneg simple_hint_def lit_def)
  have b: "\<exists>msg. generate_hint py opt = Inl (ValueError msg)" if "v < 0 \<or> 8 ^ max_str_digits \<le> v"
  proof (cases "v < 0")
    case True
    then show ?thesis
      using c_style_octal_negative[OF True] h by auto
  next
    case False
    then have "max_str_digits < length (radix 8 (nat v))"
      using that len by auto
    then show ?thesis
      using c_style_octal_too_long[of v] False h by auto
  qed
  have r18: "radix 8 18 = lit ''22''"
    by (simp add: radix_big radix_small lit_def)
  have d: "list_all (\<lambda>c. 48 \<le> c \<and> c < 56) (radix 8 (nat v))"
    using radix_digits[of 8 "nat v"] by simp
  have e18: "generate_hint py opt = Inr (lit ''<0022>'')" if "v = 18"
  proof -
    have "length (radix 8 (nat v)) \<le> max_str_digits"
      using that r18 by (simp add: lit_def max_str_digits_def)
    then have "generate_hint py opt = Inr (lit ''<0'' @ zfill 3 (radix 8 (nat v)) @ lit ''>'')"
      using that h by (simp add: c_style_octal_nonneg simple_hint_def lit_def)
    then show ?thesis
      using that r18 by (simp add: zfill_def lit_def)
  qed
  have rv: "foldl (\<lambda>a c. 8 * a + (c - 48)) 0 (radix 8 (nat v)) = nat v"
    using radix_value[of 8 "nat v"] by simp
  show ?thesis
    using a b d e18 len rv by blast
qed

theorem umask_hint_witness:
  "generate_hint
     bare_python
     (entry ''install_umask'' ''string'' (VInt 18) None ''core'' ''umask'')
   = Inr (lit ''<0022>'')"
  using umask_hint
    [of "entry ''install_umask'' ''string'' (VInt 18) None ''core'' ''umask''"
        "lit ''string''" 18
        "bare_python"]
  by (simp add: lit_def)

section \<open>Dictionaries\<close>
















section \<open>The loop over the entries\<close>















text \<open>
  The definitions that \<open>simp\<close> unfolds to run the generator on a given input.
\<close>

lemmas eval_defs = complete_build_options_def loop_body_def getitem_def generate_hint_def
  generate_compadd_choices_def generate_choices_def quote_def fsemic_def describe_spec_def
  switch_entry_def simple_hint_def shell_safe_def ascii_alnum_def user_first_def dict_pop_def
  dict_setdefault_def dict_append_def name_function_def value_function_def alt_decl_def
  alt_word_def specs_arr_def zsh_tag_def asciify_def lit_def nl_def bslash_def squote_def
  dquote_def prefix_def

section \<open>The generated functions\<close>





text \<open>
  C5. The three cases of the choices are kept apart in the branch of an entry. When
  \<open>generate_choices\<close> gives a list, the empty list included, the branch is the
  \<^verbatim>\<open>_wanted ... compadd -\<close> line followed by those values, each quoted; when it gives
  \<^verbatim>\<open>None\<close> the branch is the \<^verbatim>\<open>_message\<close> line and offers nothing. A combo entry
  always gives a list, the empty one when it declares no choice; a boolean entry gives
  the two literals; every other type gives \<^verbatim>\<open>None\<close>.
\<close>

theorem choices_tristate:
  assumes "o_description opt = Some d" and "o_type opt = Some t"
  shows "(generate_choices opt = Inr (Some cs) \<longrightarrow>
            generate_compadd_choices opt =
              Inr (lit ''    descr='' @ quote d @ nl
                   @ lit ''    _wanted -V build-option-values expl ${(qqq)descr//'' @ bslash
                   @ lit ''%/%%}'' @ quote (lit '' ('' @ t @ lit '')'')
                   @ lit '' compadd - '' @ join (lit '' '') (map quote cs)))
    \<and> (generate_choices opt = Inr None \<longrightarrow>
            generate_compadd_choices opt =
              Inr (lit ''    descr='' @ quote d @ nl
                   @ lit ''    _message -e build-option-values ${(qqq)descr//'' @ bslash
                   @ lit ''%/%%}'' @ quote (lit '' ('' @ t @ lit '')'')))
    \<and> (t = lit ''combo'' \<longrightarrow>
            generate_choices opt = Inr (Some (case o_choices opt of None \<Rightarrow> [] | Some xs \<Rightarrow> xs)))
    \<and> (t = lit ''boolean'' \<longrightarrow> generate_choices opt = Inr (Some [lit ''false'', lit ''true'']))
    \<and> (t \<noteq> lit ''combo'' \<and> t \<noteq> lit ''boolean'' \<longrightarrow> generate_choices opt = Inr None)"
  using assms
  by (auto simp: generate_compadd_choices_def generate_choices_def getitem_def Let_def lit_def)

theorem choices_tristate_witness:
  "generate_choices (entry ''buildtype'' ''combo'' (VStr (lit ''debug'')) None ''core'' ''Build type'')
     = Inr (Some [])
   \<and> generate_compadd_choices
       (entry ''buildtype'' ''combo'' (VStr (lit ''debug'')) None ''core'' ''Build type'')
     = Inr (lit ''    descr='' @ squote @ lit ''Build type'' @ squote @ nl
            @ lit ''    _wanted -V build-option-values expl ${(qqq)descr//'' @ bslash
            @ lit ''%/%%}'' @ squote @ lit '' (combo)'' @ squote @ lit '' compadd - '')"
  using choices_tristate
    [of "entry ''buildtype'' ''combo'' (VStr (lit ''debug'')) None ''core'' ''Build type''"
        "lit ''Build type''" "lit ''combo''" "[]"]
  by (simp add: eval_defs)

text \<open>
  C1 does not hold of the code. The name of an entry goes into the pattern of its
  \<^verbatim>\<open>case\<close> branch as it is, between double quotes, through neither \<^verbatim>\<open>quote\<close> nor
  \<^verbatim>\<open>zsh_tag\<close>: for the name \<^verbatim>\<open>$(id)\<close> the generated text has the line
  \<^verbatim>\<open>("$(id)")\<close>, where the shell runs the command, while \<^verbatim>\<open>quote\<close> would have given
  \<^verbatim>\<open>'$(id)'\<close>. The same name is quoted in the describe spec of the first function.
\<close>

theorem case_pattern_not_quoted:
  \<open>complete_build_options bare_python
     [entry ''$(id)'' ''boolean'' (VBool True) None ''user'' ''d'']
   = Inr (join nl
      [lit ''__meson_project_buildoptions() {'',
       lit ''  # This function loops over tag labels itself.'',
       lit ''  local -a __ndescgroup_user=('',
       lit ''    '' @ squote @ lit ''$(id):d <true>'' @ squote,
       lit ''  )'',
       lit ''  local -a alternative_argv=( "$@" )'',
       lit ''  _alternative -O alternative_argv '' @ squote
         @ lit ''user-options:user option:(( "${(@)__ndescgroup_user}" ))'' @ squote,
       lit ''}'',
       [],
       lit ''__meson_project_buildoption_choices() {'',
       lit ''  # This function loops over tag labels itself.'',
       lit ''  local m_optname="$1"'',
       lit ''  local descr'',
       lit ''  case "$m_optname" in'',
       lit ''  ("$(id)")'',
       lit ''    descr=d'',
       lit ''    _wanted -V build-option-values expl ${(qqq)descr//'' @ bslash @ lit ''%/%%}''
         @ squote @ lit '' (boolean)'' @ squote @ lit '' compadd - false true'',
       lit ''  ;;'',
       lit ''  *)'',
       lit ''    _message "unknown option; cannot offer choices"  ;;'',
       lit ''  esac'',
       lit ''}'',
       []])
   \<and> quote (lit ''$(id)'') = squote @ lit ''$(id)'' @ squote
   \<and> zsh_tag (lit ''$(id)'') = lit ''--id-''\<close>
  by (simp add: eval_defs)

section \<open>The main program\<close>

















end
